theory Spec2Isabelle
  imports Complex_Main "HOL-Library.Sublist"
begin

section \<open>The shared index-name helper (examples/utils.py)\<close>

text \<open>
  \<^verbatim>\<open>generate_vector_index_name(label, property_name, dimensions, similarity)\<close> of
  examples/utils.py has a single statement, \<^verbatim>\<open>return "dune_vector_search"\<close>.
\<close>

definition generate_vector_index_name :: "string \<Rightarrow> string \<Rightarrow> int \<Rightarrow> string \<Rightarrow> string" where
  "generate_vector_index_name label property_name dimensions similarity = ''dune_vector_search''"

section \<open>JSON values as the request handlers see them (app.py)\<close>

text \<open>
  \<^verbatim>\<open>request.get_json()\<close> hands the handlers a Python value built by the JSON decoder:
  \<^verbatim>\<open>None\<close>, a bool, an int, a float, a str, a list or a dict. A finite float is a
  rational number; \<open>JNonFinite\<close> stands for the decoder's NaN and infinities. A dict is an
  association list in insertion order; the decoder never produces two entries with one
  key, and \<open>map_of\<close> reads an entry.
\<close>

datatype json =
    JNull
  | JBool bool
  | JInt int
  | JFloat rat
  | JNonFinite
  | JStr string
  | JArr "json list"
  | JObj "(string \<times> json) list"

text \<open>An exception, with the text that \<^verbatim>\<open>str(e)\<close> gives.\<close>

datatype exn =
    TypeError string
  | KeyError string
  | AttributeError string
  | Raised string

definition quote :: "string \<Rightarrow> string" where
  "quote s = CHR 0x27 # s @ [CHR 0x27]"

fun str_exn :: "exn \<Rightarrow> string" where
  "str_exn (TypeError m) = m"
| "str_exn (KeyError k) = quote k"
| "str_exn (AttributeError m) = m"
| "str_exn (Raised m) = m"

fun type_name :: "json \<Rightarrow> string" where
  "type_name JNull = ''NoneType''"
| "type_name (JBool b) = ''bool''"
| "type_name (JInt i) = ''int''"
| "type_name (JFloat r) = ''float''"
| "type_name JNonFinite = ''float''"
| "type_name (JStr s) = ''str''"
| "type_name (JArr xs) = ''list''"
| "type_name (JObj kvs) = ''dict''"

text \<open>Python truth value, as \<^verbatim>\<open>if not data\<close> tests it.\<close>

fun truthy :: "json \<Rightarrow> bool" where
  "truthy JNull = False"
| "truthy (JBool b) = b"
| "truthy (JInt i) = (i \<noteq> 0)"
| "truthy (JFloat r) = (r \<noteq> 0)"
| "truthy JNonFinite = True"
| "truthy (JStr s) = (s \<noteq> [])"
| "truthy (JArr xs) = (xs \<noteq> [])"
| "truthy (JObj kvs) = (kvs \<noteq> [])"

fun is_substring :: "string \<Rightarrow> string \<Rightarrow> bool" where
  "is_substring needle [] = (needle = [])"
| "is_substring needle (c # cs) = (prefix needle (c # cs) \<or> is_substring needle cs)"

text \<open>
  \<^verbatim>\<open>key in data\<close> for a str key: key membership in a dict, element equality in a list,
  substring test in a str, TypeError for everything else.
\<close>

fun py_contains :: "json \<Rightarrow> string \<Rightarrow> exn + bool" where
  "py_contains (JObj kvs) k = Inr (map_of kvs k \<noteq> None)"
| "py_contains (JArr xs) k = Inr (JStr k \<in> set xs)"
| "py_contains (JStr s) k = Inr (is_substring k s)"
| "py_contains v k =
     Inl (TypeError (''argument of type '' @ quote (type_name v) @ '' is not iterable''))"

text \<open>\<^verbatim>\<open>data[key]\<close> for a str key.\<close>

fun py_getitem :: "json \<Rightarrow> string \<Rightarrow> exn + json" where
  "py_getitem (JObj kvs) k = (case map_of kvs k of Some v \<Rightarrow> Inr v | None \<Rightarrow> Inl (KeyError k))"
| "py_getitem (JArr xs) k = Inl (TypeError ''list indices must be integers or slices, not str'')"
| "py_getitem (JStr s) k =
     Inl (TypeError (''string indices must be integers, not '' @ quote ''str''))"
| "py_getitem v k = Inl (TypeError (quote (type_name v) @ '' object is not subscriptable''))"

text \<open>\<^verbatim>\<open>data.get(key, default)\<close>: a dict method; other values have no such attribute.\<close>

fun py_get :: "json \<Rightarrow> string \<Rightarrow> json \<Rightarrow> exn + json" where
  "py_get (JObj kvs) k d = Inr (case map_of kvs k of Some v \<Rightarrow> v | None \<Rightarrow> d)"
| "py_get v k d =
     Inl (AttributeError (quote (type_name v) @ '' object has no attribute '' @ quote ''get''))"

section \<open>The request handlers (app.py)\<close>

text \<open>
  A handler returns \<^verbatim>\<open>jsonify(body), code\<close>; a bare \<^verbatim>\<open>jsonify(body)\<close> is sent with
  status 200. The RAG pipeline is a collaborator outside the repository:
  \<^verbatim>\<open>rag.search(query_text=q, retriever_config={"top_k": k}).answer\<close> either raises or
  yields the answer text, so it is a parameter of the handlers. The request is the
  outcome of \<^verbatim>\<open>request.get_json()\<close>, which raises or returns a value.
\<close>

type_synonym response = "json \<times> nat"
type_synonym rag = "json \<Rightarrow> json \<Rightarrow> exn + string"
type_synonym request = "exn + json"

text \<open>The body of the \<^verbatim>\<open>try\<close> block of \<^verbatim>\<open>query()\<close>.\<close>

definition query_try :: "rag \<Rightarrow> request \<Rightarrow> exn + response" where
  "query_try search req =
     (case req of
        Inl e \<Rightarrow> Inl e
      | Inr data \<Rightarrow>
          if \<not> truthy data then Inr (JObj [(''error'', JStr ''No data provided'')], 400)
          else
            (case py_contains data ''query'' of
               Inl e \<Rightarrow> Inl e
             | Inr present \<Rightarrow>
                 if \<not> present then Inr (JObj [(''error'', JStr ''No query provided'')], 400)
                 else
                   (case py_getitem data ''query'' of
                      Inl e \<Rightarrow> Inl e
                    | Inr query_text \<Rightarrow>
                        (case py_get data ''top_k'' (JInt 5) of
                           Inl e \<Rightarrow> Inl e
                         | Inr top_k \<Rightarrow>
                             (case search query_text top_k of
                                Inl e \<Rightarrow> Inl e
                              | Inr answer \<Rightarrow>
                                  Inr (JObj [(''answer'', JStr answer),
                                             (''query'', query_text),
                                             (''top_k'', top_k),
                                             (''status'', JStr ''success'')], 200))))))"

text \<open>The \<^verbatim>\<open>except Exception as e\<close> clause, shared in shape by both handlers.\<close>

definition internal_error :: "exn \<Rightarrow> response" where
  "internal_error e = (JObj [(''error'', JStr (str_exn e)), (''status'', JStr ''error'')], 500)"

definition query :: "rag \<Rightarrow> request \<Rightarrow> response" where
  "query search req = (case query_try search req of Inr r \<Rightarrow> r | Inl e \<Rightarrow> internal_error e)"

text \<open>The body of the \<^verbatim>\<open>try\<close> block of \<^verbatim>\<open>webhook()\<close>.\<close>

definition webhook_try :: "rag \<Rightarrow> request \<Rightarrow> exn + response" where
  "webhook_try search req =
     (case req of
        Inl e \<Rightarrow> Inl e
      | Inr data \<Rightarrow>
          if \<not> truthy data then Inr (JObj [(''error'', JStr ''No data provided'')], 400)
          else
            (case py_contains data ''query'' of
               Inl e \<Rightarrow> Inl e
             | Inr present \<Rightarrow>
                 if \<not> present then Inr (JObj [(''error'', JStr ''No query provided'')], 400)
                 else
                   (case py_getitem data ''query'' of
                      Inl e \<Rightarrow> Inl e
                    | Inr query_text \<Rightarrow>
                        (case search query_text (JInt 5) of
                           Inl e \<Rightarrow> Inl e
                         | Inr answer \<Rightarrow>
                             Inr (JObj [(''answer'', JStr answer),
                                        (''query'', query_text),
                                        (''status'', JStr ''success'')], 200)))))"

definition webhook :: "rag \<Rightarrow> request \<Rightarrow> response" where
  "webhook search req = (case webhook_try search req of Inr r \<Rightarrow> r | Inl e \<Rightarrow> internal_error e)"

subsection \<open>Reading a response\<close>

fun field :: "string \<Rightarrow> json \<Rightarrow> json option" where
  "field k (JObj kvs) = map_of kvs k"
| "field k v = None"

text \<open>A response with the entry \<open>top_k\<close> taken out of its body.\<close>

fun without_top_k :: "response \<Rightarrow> response" where
  "without_top_k (JObj kvs, code) = (JObj (filter (\<lambda>kv. fst kv \<noteq> ''top_k'') kvs), code)"
| "without_top_k (v, code) = (v, code)"

text \<open>A pipeline that answers every search with the same text, for concrete runs.\<close>

definition fixed_answer :: "string \<Rightarrow> rag" where
  "fixed_answer a q k = Inr a"

section \<open>Properties of the index-name helper\<close>

text \<open>
  Claim C10. For every combination of label, property name, dimensions and similarity,
  the shared helper of examples/utils.py returns the constant string
  "dune_vector_search": none of the four arguments changes the result, so any two calls
  name the same vector index.
\<close>

theorem generate_vector_index_name_constant:
  "generate_vector_index_name label property_name dimensions similarity = ''dune_vector_search''
   \<and> generate_vector_index_name label property_name dimensions similarity
       = generate_vector_index_name label' property_name' dimensions' similarity'"
  by (simp add: generate_vector_index_name_def)

section \<open>Properties of the request handlers\<close>

subsection \<open>What \<^verbatim>\<open>POST /query\<close> answers\<close>

lemma py_getitem_dict: "py_getitem data k = Inr v \<Longrightarrow> \<exists>kvs. data = JObj kvs"
  by (cases data) auto

lemma query_get_json_raises: "query search (Inl e) = internal_error e"
  by (simp add: query_def query_try_def)

lemma query_no_data:
  "\<not> truthy data \<Longrightarrow> query search (Inr data) = (JObj [(''error'', JStr ''No data provided'')], 400)"
  by (simp add: query_def query_try_def)

lemma query_no_query:
  assumes "kvs \<noteq> []" and "map_of kvs ''query'' = None"
  shows "query search (Inr (JObj kvs)) = (JObj [(''error'', JStr ''No query provided'')], 400)"
  using assms by (simp add: query_def query_try_def)

lemma query_success:
  assumes "map_of kvs ''query'' = Some q"
    and "search q (case map_of kvs ''top_k'' of Some v \<Rightarrow> v | None \<Rightarrow> JInt 5) = Inr a"
  shows "query search (Inr (JObj kvs)) =
           (JObj [(''answer'', JStr a), (''query'', q),
                  (''top_k'', case map_of kvs ''top_k'' of Some v \<Rightarrow> v | None \<Rightarrow> JInt 5),
                  (''status'', JStr ''success'')], 200)"
proof -
  from assms(1) have "kvs \<noteq> []" by auto
  with assms show ?thesis by (simp add: query_def query_try_def)
qed

lemma query_search_failure:
  assumes "map_of kvs ''query'' = Some q"
    and "search q (case map_of kvs ''top_k'' of Some v \<Rightarrow> v | None \<Rightarrow> JInt 5) = Inl e"
  shows "query search (Inr (JObj kvs)) =
           (JObj [(''error'', JStr (str_exn e)), (''status'', JStr ''error'')], 500)"
proof -
  from assms(1) have "kvs \<noteq> []" by auto
  with assms show ?thesis by (simp add: query_def query_try_def internal_error_def)
qed

lemma query_try_status: "query_try search req = Inr r \<Longrightarrow> snd r = 200 \<or> snd r = 400"
  by (auto simp: query_try_def split: sum.splits if_splits)

lemma query_status: "snd (query search req) \<in> {200, 400, 500}"
proof (cases "query_try search req")
  case (Inl e)
  then show ?thesis by (simp add: query_def internal_error_def)
next
  case (Inr r)
  with query_try_status [OF Inr] show ?thesis by (auto simp: query_def)
qed

lemma query_non_object_body:
  "query search (Inr (JArr [JStr ''query''])) =
     (JObj [(''error'', JStr ''list indices must be integers or slices, not str''),
            (''status'', JStr ''error'')], 500)"
  by (simp add: query_def query_try_def internal_error_def)

text \<open>
  Claim C1. \<^verbatim>\<open>POST /query\<close> is to answer a body that lacks the \<open>query\<close> field with
  HTTP 400 and a body that holds an \<open>error\<close> field and the status "error". On the body
  \<^verbatim>\<open>{"top_k": 3}\<close> the handler answers 400 with the body
  \<^verbatim>\<open>{"error": "No query provided"}\<close>, whatever the pipeline: the body has no
  \<open>status\<close> field, while the reply of the \<^verbatim>\<open>except\<close> branch carries one.
\<close>

theorem query_missing_field_reply_lacks_status:
  "query search (Inr (JObj [(''top_k'', JInt 3)])) =
     (JObj [(''error'', JStr ''No query provided'')], 400)
   \<and> field ''status'' (fst (query search (Inr (JObj [(''top_k'', JInt 3)])))) = None
   \<and> field ''status'' (fst (internal_error e)) = Some (JStr ''error'')"
  by (simp add: query_def query_try_def internal_error_def)

subsection \<open>\<^verbatim>\<open>POST /webhook\<close> against \<^verbatim>\<open>POST /query\<close>\<close>

lemma webhook_get_json_raises: "webhook search (Inl e) = query search (Inl e)"
  by (simp add: webhook_def webhook_try_def query_def query_try_def)

lemma webhook_success:
  assumes "map_of kvs ''query'' = Some q" and "search q (JInt 5) = Inr a"
  shows "webhook search (Inr (JObj kvs)) =
           (JObj [(''answer'', JStr a), (''query'', q), (''status'', JStr ''success'')], 200)"
proof -
  from assms(1) have "kvs \<noteq> []" by auto
  with assms show ?thesis by (simp add: webhook_def webhook_try_def)
qed

text \<open>
  Claim C8, as stated: \<^verbatim>\<open>POST /webhook\<close> returns the same response shape as
  \<^verbatim>\<open>POST /query\<close>, with the fields answer, query, top_k and status on success. On the
  body \<^verbatim>\<open>{"query": "q"}\<close> and a pipeline that answers "a", the webhook's body is
  \<^verbatim>\<open>{"answer": "a", "query": "q", "status": "success"}\<close>, with no \<open>top_k\<close> field, while
  the body of \<^verbatim>\<open>/query\<close> holds \<open>top_k = 5\<close>.
\<close>

theorem webhook_success_body_lacks_top_k:
  "webhook (fixed_answer ''a'') (Inr (JObj [(''query'', JStr ''q'')])) =
     (JObj [(''answer'', JStr ''a''), (''query'', JStr ''q''), (''status'', JStr ''success'')], 200)
   \<and> field ''top_k'' (fst (webhook (fixed_answer ''a'') (Inr (JObj [(''query'', JStr ''q'')])))) = None
   \<and> field ''top_k'' (fst (query (fixed_answer ''a'') (Inr (JObj [(''query'', JStr ''q'')]))))
       = Some (JInt 5)"
  by (simp add: webhook_def webhook_try_def query_def query_try_def fixed_answer_def)

text \<open>
  Claim C8, amended. For every outcome of reading the request body and every pipeline,
  \<^verbatim>\<open>POST /webhook\<close> answers what \<^verbatim>\<open>POST /query\<close> answers when the search is run with
  top_k fixed to 5 instead of the client's value, with the \<open>top_k\<close> field taken out of the
  body: the same validation, the same search, the same status code, the same error
  bodies, and a success body made of answer, query and status.
\<close>

theorem webhook_is_query_with_fixed_top_k:
  "webhook search req = without_top_k (query (\<lambda>q k. search q (JInt 5)) req)"
proof (cases req)
  case (Inl e)
  then show ?thesis
    by (simp add: webhook_def webhook_try_def query_def query_try_def internal_error_def)
next
  case (Inr data)
  then show ?thesis
    by (cases data)
       (auto simp: webhook_def webhook_try_def query_def query_try_def internal_error_def
             split: sum.splits option.splits)
qed

end
